theory Spec2Isabelle
  imports Main "HOL-Library.AList" "HOL-Library.Sublist"
begin

section \<open>Python values\<close>

text \<open>
  Every value that crosses the boundaries of \<^verbatim>\<open>phishing_backend.py\<close> is a decoded JSON
  document: the request body, the replies of the reputation service, the completion of the
  language model and the dictionaries the backend builds itself. A dictionary is an
  association list in insertion order (Python keeps that order). A float is carried by its
  literal text: the backend passes numbers through and never computes with them. A
  \<open>char\<close> stands for a code point below 256.
\<close>

datatype json =
    JNull
  | JBool bool
  | JInt int
  | JFloat string
  | JStr string
  | JArr "json list"
  | JObj "(string \<times> json) list"

text \<open>
  The exceptions are instances of Python's \<^verbatim>\<open>Exception\<close>, the class both
  \<^verbatim>\<open>except\<close> clauses of the backend name. The first four are raised by the interpreter
  on a value of the wrong shape and carry the text \<^verbatim>\<open>str(e)\<close> yields; \<open>LibraryError\<close>
  is any exception of a library (class name and message).
\<close>

datatype exn =
    KeyError string
  | TypeError string
  | AttributeError string
  | IndexError string
  | LibraryError string string

fun str_exn :: "exn \<Rightarrow> string" where
  "str_exn (KeyError m) = m"
| "str_exn (TypeError m) = m"
| "str_exn (AttributeError m) = m"
| "str_exn (IndexError m) = m"
| "str_exn (LibraryError c m) = m"

definition quoted :: "string \<Rightarrow> string" where
  "quoted s = [CHR 0x27] @ s @ [CHR 0x27]"

fun type_name :: "json \<Rightarrow> string" where
  "type_name JNull = ''NoneType''"
| "type_name (JBool b) = ''bool''"
| "type_name (JInt i) = ''int''"
| "type_name (JFloat f) = ''float''"
| "type_name (JStr s) = ''str''"
| "type_name (JArr xs) = ''list''"
| "type_name (JObj d) = ''dict''"

subsection \<open>Strings\<close>

text \<open>\<^verbatim>\<open>s.startswith(p)\<close>.\<close>

definition startswith :: "string \<Rightarrow> string \<Rightarrow> bool" where
  "startswith s p = (take (length p) s = p)"

text \<open>\<^verbatim>\<open>k in s\<close> for two strings: \<open>k\<close> occurs in \<open>s\<close> as a contiguous run.\<close>

fun str_contains :: "string \<Rightarrow> string \<Rightarrow> bool" where
  "str_contains [] k = (k = [])"
| "str_contains (c # cs) k = (startswith (c # cs) k \<or> str_contains cs k)"

text \<open>\<^verbatim>\<open>str.isspace\<close> on the code points below 256, and \<^verbatim>\<open>s.strip()\<close>.\<close>

definition py_isspace :: "char \<Rightarrow> bool" where
  "py_isspace c =
     (let n = (of_char c :: nat)
      in (9 \<le> n \<and> n \<le> 13) \<or> (28 \<le> n \<and> n \<le> 32) \<or> n = 133 \<or> n = 160)"

definition strip :: "string \<Rightarrow> string" where
  "strip s = rev (dropWhile py_isspace (rev (dropWhile py_isspace s)))"

subsection \<open>Operators on decoded JSON\<close>

text \<open>
  \<^verbatim>\<open>k in v\<close> with a string \<open>k\<close>: key membership for a dict, element membership for a
  list, substring for a string, \<^verbatim>\<open>TypeError\<close> for everything else.
\<close>

fun py_in :: "string \<Rightarrow> json \<Rightarrow> exn + bool" where
  "py_in k (JObj d) = Inr (map_of d k \<noteq> None)"
| "py_in k (JArr xs) = Inr (JStr k \<in> set xs)"
| "py_in k (JStr s) = Inr (str_contains s k)"
| "py_in k v = Inl (TypeError (''argument of type '' @ quoted (type_name v) @ '' is not iterable''))"

text \<open>\<^verbatim>\<open>v[k]\<close> with a string \<open>k\<close>.\<close>

fun py_getitem :: "json \<Rightarrow> string \<Rightarrow> exn + json" where
  "py_getitem (JObj d) k = (case map_of d k of None \<Rightarrow> Inl (KeyError (quoted k)) | Some x \<Rightarrow> Inr x)"
| "py_getitem (JArr xs) k = Inl (TypeError ''list indices must be integers or slices, not str'')"
| "py_getitem (JStr s) k = Inl (TypeError ''string indices must be integers'')"
| "py_getitem v k = Inl (TypeError (quoted (type_name v) @ '' object is not subscriptable''))"

text \<open>\<^verbatim>\<open>v[0]\<close>. The keys of a decoded JSON object are strings, so a dict has no key \<open>0\<close>.\<close>

fun py_getitem0 :: "json \<Rightarrow> exn + json" where
  "py_getitem0 (JArr xs) = (case xs of [] \<Rightarrow> Inl (IndexError ''list index out of range'') | x # _ \<Rightarrow> Inr x)"
| "py_getitem0 (JStr s) = (case s of [] \<Rightarrow> Inl (IndexError ''string index out of range'') | c # _ \<Rightarrow> Inr (JStr [c]))"
| "py_getitem0 (JObj d) = Inl (KeyError ''0'')"
| "py_getitem0 v = Inl (TypeError (quoted (type_name v) @ '' object is not subscriptable''))"

text \<open>\<^verbatim>\<open>v.get(k, default)\<close>: only a dict has the method.\<close>

fun py_get :: "json \<Rightarrow> string \<Rightarrow> json \<Rightarrow> exn + json" where
  "py_get (JObj d) k dflt = Inr (case map_of d k of None \<Rightarrow> dflt | Some x \<Rightarrow> x)"
| "py_get v k dflt = Inl (AttributeError (quoted (type_name v) @ '' object has no attribute '' @ quoted ''get''))"

text \<open>\<^verbatim>\<open>v.strip()\<close>: only a string has the method.\<close>

fun py_strip :: "json \<Rightarrow> exn + string" where
  "py_strip (JStr s) = Inr (strip s)"
| "py_strip v = Inl (AttributeError (quoted (type_name v) @ '' object has no attribute '' @ quoted ''strip''))"

text \<open>Sequencing of computations that may raise; \<^verbatim>\<open>a and b\<close> evaluates \<open>b\<close> only when \<open>a\<close> is true.\<close>

definition bind_exn :: "exn + 'a \<Rightarrow> ('a \<Rightarrow> exn + 'b) \<Rightarrow> exn + 'b" where
  "bind_exn m f = (case m of Inl e \<Rightarrow> Inl e | Inr x \<Rightarrow> f x)"

definition py_and :: "exn + bool \<Rightarrow> exn + bool \<Rightarrow> exn + bool" where
  "py_and a b = (case a of Inl e \<Rightarrow> Inl e | Inr False \<Rightarrow> Inr False | Inr True \<Rightarrow> b)"

section \<open>The outside world\<close>

text \<open>
  The backend talks to two services. A run is modelled against the history of the calls
  made so far: each call is appended to the history, and what a service answers may depend
  on the whole history, so the same URL submitted twice may get two different answers.

  \<^item> \<open>RequestsPost url headers data\<close> is \<^verbatim>\<open>requests.post(url, headers=..., data=...)\<close>;
  \<^item> \<open>RequestsGetAnalysis id headers\<close> is \<^verbatim>\<open>requests.get\<close> of the address
    \<^verbatim>\<open>https://www.virustotal.com/api/v3/analyses/{id}\<close>;
  \<^item> \<open>ChatCompletionCreate text results\<close> is \<^verbatim>\<open>openai.ChatCompletion.create\<close> with the
    fixed model, sampling parameters and prompt template of the source; the two arguments
    are the values the template interpolates.
\<close>

type_synonym headers = "(string \<times> string option) list"

datatype call =
    RequestsPost string headers "(string \<times> string) list"
  | RequestsGetAnalysis json headers
  | ChatCompletionCreate string "(string \<times> json) list"

text \<open>A response of \<^verbatim>\<open>requests\<close>, reduced to what its \<^verbatim>\<open>.json()\<close> method does.\<close>

datatype response = Response "exn + json"

fun response_json :: "response \<Rightarrow> exn + json" where
  "response_json (Response r) = r"

text \<open>
  The libraries and the configuration are parameters:
  \<^item> \<open>virustotal_api_key\<close>: \<^verbatim>\<open>os.getenv("VIRUSTOTAL_API_KEY")\<close>, \<open>None\<close> when unset;
  \<^item> \<open>requests_reply\<close>, \<open>openai_reply\<close>: what the service answers to a call after a history;
  \<^item> \<open>json_loads\<close>: \<^verbatim>\<open>json.loads\<close>;
  \<^item> \<open>BeautifulSoup\<close>: the constructor \<^verbatim>\<open>BeautifulSoup(markup, 'html.parser')\<close>, applied to
    whatever value the request carries.
\<close>

datatype node =
    Tag string "(string \<times> string) list" "node list"
  | NavigableString string
  | Comment string

record services =
  virustotal_api_key :: "string option"
  requests_reply :: "call list \<Rightarrow> call \<Rightarrow> exn + response"
  openai_reply :: "call list \<Rightarrow> call \<Rightarrow> exn + json"
  json_loads :: "string \<Rightarrow> exn + json"
  BeautifulSoup :: "json \<Rightarrow> exn + node list"

text \<open>A computation reads the history, may raise, and returns the extended history.\<close>

type_synonym 'a io = "call list \<Rightarrow> (exn + 'a) \<times> call list"

definition return_io :: "'a \<Rightarrow> 'a io" where
  "return_io x h = (Inr x, h)"

definition lift_io :: "exn + 'a \<Rightarrow> 'a io" where
  "lift_io r h = (r, h)"

definition bind_io :: "'a io \<Rightarrow> ('a \<Rightarrow> 'b io) \<Rightarrow> 'b io" where
  "bind_io m f h = (case m h of (Inl e, h') \<Rightarrow> (Inl e, h') | (Inr x, h') \<Rightarrow> f x h')"

text \<open>\<^verbatim>\<open>try: m  except Exception as e: handler(e)\<close>.\<close>

definition try_except :: "'a io \<Rightarrow> (exn \<Rightarrow> 'a io) \<Rightarrow> 'a io" where
  "try_except m handler h = (case m h of (Inl e, h') \<Rightarrow> handler e h' | (Inr x, h') \<Rightarrow> (Inr x, h'))"

definition requests_call :: "services \<Rightarrow> call \<Rightarrow> response io" where
  "requests_call env c h = (requests_reply env h c, h @ [c])"

definition openai_call :: "services \<Rightarrow> call \<Rightarrow> json io" where
  "openai_call env c h = (openai_reply env h c, h @ [c])"

section \<open>Markup Extractor: \<^verbatim>\<open>extract_email_data\<close>\<close>

text \<open>
  A parsed document is the list of the children of the soup object. \<open>NavigableString\<close>
  is a text node; \<open>Comment\<close> stands for the string classes \<^verbatim>\<open>get_text\<close> leaves out.
  \<open>subtree\<close> lists a node and its descendants in document order.
\<close>

fun subtree :: "node \<Rightarrow> node list" where
  "subtree (Tag n a cs) = Tag n a cs # concat (map subtree cs)"
| "subtree (NavigableString s) = [NavigableString s]"
| "subtree (Comment s) = [Comment s]"

definition descendants :: "node list \<Rightarrow> node list" where
  "descendants soup = concat (map subtree soup)"

text \<open>\<^verbatim>\<open>soup.get_text(strip=True)\<close>: the stripped, non-empty text nodes, joined.\<close>

fun text_of :: "node \<Rightarrow> string list" where
  "text_of (NavigableString s) = (if strip s = [] then [] else [strip s])"
| "text_of n = []"

definition get_text :: "node list \<Rightarrow> string" where
  "get_text soup = concat (concat (map text_of (descendants soup)))"

text \<open>\<^verbatim>\<open>soup.find_all(name, href=True)\<close>: the tags of that name whose \<^verbatim>\<open>href\<close> is not \<^verbatim>\<open>None\<close>.\<close>

fun matches_href :: "string \<Rightarrow> node \<Rightarrow> bool" where
  "matches_href name (Tag n a cs) = (n = name \<and> map_of a ''href'' \<noteq> None)"
| "matches_href name n = False"

definition find_all_href :: "node list \<Rightarrow> string \<Rightarrow> node list" where
  "find_all_href soup name = filter (matches_href name) (descendants soup)"

text \<open>\<^verbatim>\<open>a[key]\<close> on a tag raises \<^verbatim>\<open>KeyError\<close> when the attribute is absent.\<close>

fun tag_getitem :: "node \<Rightarrow> string \<Rightarrow> exn + string" where
  "tag_getitem (Tag n a cs) k = (case map_of a k of None \<Rightarrow> Inl (KeyError (quoted k)) | Some v \<Rightarrow> Inr v)"
| "tag_getitem n k = Inl (TypeError ''string indices must be integers'')"

text \<open>A list comprehension whose element expression may raise.\<close>

fun comprehension :: "('a \<Rightarrow> exn + 'b) \<Rightarrow> 'a list \<Rightarrow> exn + 'b list" where
  "comprehension f [] = Inr []"
| "comprehension f (x # xs) =
     (case f x of Inl e \<Rightarrow> Inl e
      | Inr y \<Rightarrow> (case comprehension f xs of Inl e \<Rightarrow> Inl e | Inr ys \<Rightarrow> Inr (y # ys)))"

definition extract_email_data :: "services \<Rightarrow> json \<Rightarrow> exn + (string \<times> string list)" where
  "extract_email_data env raw_email_content =
     bind_exn (BeautifulSoup env raw_email_content) (\<lambda>soup.
       let email_text = get_text soup
       in bind_exn (comprehension (\<lambda>a. tag_getitem a ''href'') (find_all_href soup ''a'')) (\<lambda>links.
            Inr (email_text, links)))"

section \<open>Reputation Scanner: \<^verbatim>\<open>scan_links_with_virustotal\<close>\<close>

definition vt_urls :: string where
  "vt_urls = ''https://www.virustotal.com/api/v3/urls''"

text \<open>
  One pass of the loop body on the dictionary built so far. Each of the three branches ends in
  the assignment \<^verbatim>\<open>analysis_results[link] = ...\<close>.
\<close>

definition scan_link :: "services \<Rightarrow> string \<Rightarrow> (string \<times> json) list \<Rightarrow> (string \<times> json) list io" where
  "scan_link env link0 analysis_results =
     (let headers = [(''x-apikey'', virustotal_api_key env)];
          link = (if \<not> startswith link0 ''http://'' \<and> \<not> startswith link0 ''https://''
                  then ''https://'' @ link0 else link0)
      in bind_io (requests_call env (RequestsPost vt_urls headers [(''url'', link)])) (\<lambda>response.
         bind_io (lift_io (response_json response)) (\<lambda>response_data.
         bind_io (lift_io (py_and (py_in ''data'' response_data)
                    (bind_exn (py_getitem response_data ''data'') (py_in ''id'')))) (\<lambda>has_id.
         if has_id then
           bind_io (lift_io (bind_exn (py_getitem response_data ''data'') (\<lambda>d. py_getitem d ''id''))) (\<lambda>analysis_id.
           bind_io (requests_call env (RequestsGetAnalysis analysis_id headers)) (\<lambda>details_response.
           bind_io (lift_io (response_json details_response)) (\<lambda>details_data.
           bind_io (lift_io (py_and (py_in ''data'' details_data)
                      (bind_exn (py_getitem details_data ''data'') (py_in ''attributes'')))) (\<lambda>has_attributes.
           if has_attributes then
             bind_io (lift_io (bind_exn (py_getitem details_data ''data'') (\<lambda>d.
                               bind_exn (py_getitem d ''attributes'') (\<lambda>a. py_getitem a ''stats'')))) (\<lambda>stats.
             bind_io (lift_io (py_get stats ''malicious'' (JInt 0))) (\<lambda>malicious.
             bind_io (lift_io (py_get stats ''suspicious'' (JInt 0))) (\<lambda>suspicious.
             bind_io (lift_io (py_get stats ''undetected'' (JInt 0))) (\<lambda>undetected.
             return_io (AList.update link
               (JObj [(''malicious'', malicious), (''suspicious'', suspicious), (''undetected'', undetected)])
               analysis_results)))))
           else
             return_io (AList.update link (JObj [(''error'', JStr ''Details not found'')]) analysis_results)))))
         else
           return_io (AList.update link (JObj [(''error'', JStr ''Submission failed'')]) analysis_results)))))"

fun scan_loop :: "services \<Rightarrow> string list \<Rightarrow> (string \<times> json) list \<Rightarrow> (string \<times> json) list io" where
  "scan_loop env [] analysis_results = return_io analysis_results"
| "scan_loop env (link # links) analysis_results =
     bind_io (scan_link env link analysis_results) (scan_loop env links)"

definition scan_links_with_virustotal :: "services \<Rightarrow> string list \<Rightarrow> (string \<times> json) list io" where
  "scan_links_with_virustotal env links = scan_loop env links []"

section \<open>Risk Assessor: \<^verbatim>\<open>analyze_with_chatgpt\<close>\<close>

text \<open>\<^verbatim>\<open>response['choices'][0]['message']['content']\<close>.\<close>

definition message_content :: "json \<Rightarrow> exn + json" where
  "message_content response =
     bind_exn (py_getitem response ''choices'') (\<lambda>choices.
     bind_exn (py_getitem0 choices) (\<lambda>choice.
     bind_exn (py_getitem choice ''message'') (\<lambda>message.
     py_getitem message ''content'')))"

text \<open>The parsing of the reply: strip, decode, read the field.\<close>

definition chatgpt_reply_score :: "services \<Rightarrow> json \<Rightarrow> exn + json" where
  "chatgpt_reply_score env response =
     bind_exn (message_content response) (\<lambda>response_content.
     bind_exn (py_strip response_content) (\<lambda>stripped.
     bind_exn (json_loads env stripped) (\<lambda>response_json.
     py_getitem response_json ''phishingScore'')))"

text \<open>The body of the \<^verbatim>\<open>try\<close> block, and the function with its \<^verbatim>\<open>except\<close> clause.\<close>

definition chatgpt_try :: "services \<Rightarrow> string \<Rightarrow> (string \<times> json) list \<Rightarrow> json io" where
  "chatgpt_try env email_text vt_results =
     bind_io (openai_call env (ChatCompletionCreate email_text vt_results)) (\<lambda>response.
       lift_io (chatgpt_reply_score env response))"

definition analyze_with_chatgpt :: "services \<Rightarrow> string \<Rightarrow> (string \<times> json) list \<Rightarrow> json io" where
  "analyze_with_chatgpt env email_text vt_results =
     try_except (chatgpt_try env email_text vt_results)
       (\<lambda>e. return_io (JObj [(''error'', JStr (''OpenAI API error: '' @ str_exn e))]))"

section \<open>Request Handler: \<^verbatim>\<open>analyze_email\<close>\<close>

text \<open>
  \<open>data\<close> is the value of \<^verbatim>\<open>request.json\<close>. The handler returns a status and a body
  (\<^verbatim>\<open>jsonify(...)\<close> alone is status 200), or raises into the web framework.
  \<open>analyze_email_try\<close> is the body of the \<^verbatim>\<open>try\<close> block.
\<close>

definition analyze_email_try :: "services \<Rightarrow> string \<Rightarrow> string list \<Rightarrow> (nat \<times> json) io" where
  "analyze_email_try env email_text links =
     bind_io (scan_links_with_virustotal env links) (\<lambda>vt_results.
     bind_io (analyze_with_chatgpt env email_text vt_results) (\<lambda>phishing_score.
     return_io (200, JObj [(''phishingScore'', phishing_score), (''virusTotalResults'', JObj vt_results)])))"

definition analyze_email :: "services \<Rightarrow> json \<Rightarrow> (nat \<times> json) io" where
  "analyze_email env data =
     bind_io (lift_io (py_get data ''emailContent'' (JStr ''''))) (\<lambda>raw_email_content.
     bind_io (lift_io (extract_email_data env raw_email_content)) (\<lambda>(email_text, links).
     try_except (analyze_email_try env email_text links)
       (\<lambda>e. return_io (500, JObj [(''error'', JStr (str_exn e))]))))"

section \<open>Notions of the specification\<close>

text \<open>
  The normalized link of the specification: a link that carries neither prefix gets
  \<^verbatim>\<open>https://\<close> prepended, a link that carries one is left as it is.
\<close>

definition normalized :: "string \<Rightarrow> string" where
  "normalized l = (if startswith l ''http://'' \<or> startswith l ''https://'' then l else ''https://'' @ l)"

text \<open>The URLs a call submits for reputation lookup: the \<^verbatim>\<open>url\<close> fields of a posted form.\<close>

fun submitted :: "call \<Rightarrow> string list" where
  "submitted (RequestsPost url hdrs form) = map snd (filter (\<lambda>p. fst p = ''url'') form)"
| "submitted c = []"

text \<open>The submission of a normalized link, as the loop body issues it.\<close>

definition submission :: "services \<Rightarrow> string \<Rightarrow> call" where
  "submission env link = RequestsPost vt_urls [(''x-apikey'', virustotal_api_key env)] [(''url'', link)]"

text \<open>
  A decoded submission response without an analysis identifier: an object with no
  \<^verbatim>\<open>data\<close>, or whose \<^verbatim>\<open>data\<close> is an object with no \<^verbatim>\<open>id\<close>.
\<close>

fun lacks_analysis_id :: "json \<Rightarrow> bool" where
  "lacks_analysis_id (JObj d) =
     (case map_of d ''data'' of None \<Rightarrow> True | Some (JObj dd) \<Rightarrow> map_of dd ''id'' = None | Some v \<Rightarrow> False)"
| "lacks_analysis_id v = False"

text \<open>The score range of the specification: an integer from 0 to 100.\<close>

fun valid_score :: "json \<Rightarrow> bool" where
  "valid_score (JInt i) = (0 \<le> i \<and> i \<le> 100)"
| "valid_score v = False"

text \<open>
  The links of the specification, read off the document tree: the \<^verbatim>\<open>href\<close> values of the
  anchor elements that carry one (\<open>own_href\<close> for one element), in document order.
  \<open>carries_href\<close> and
  \<open>carries_nonempty_href\<close> are the two ways of counting those anchors.
\<close>

fun own_href :: "node \<Rightarrow> string list" where
  "own_href (Tag n a cs) =
     (if n = ''a'' then (case map_of a ''href'' of None \<Rightarrow> [] | Some v \<Rightarrow> [v]) else [])"
| "own_href n = []"

fun anchor_hrefs :: "node \<Rightarrow> string list" where
  "anchor_hrefs (Tag n a cs) = own_href (Tag n a cs) @ concat (map anchor_hrefs cs)"
| "anchor_hrefs (NavigableString s) = []"
| "anchor_hrefs (Comment s) = []"

fun is_anchor :: "node \<Rightarrow> bool" where
  "is_anchor (Tag n a cs) = (n = ''a'')"
| "is_anchor n = False"

fun carries_href :: "node \<Rightarrow> bool" where
  "carries_href (Tag n a cs) = (n = ''a'' \<and> ''href'' \<in> fst ` set a)"
| "carries_href n = False"

fun carries_nonempty_href :: "node \<Rightarrow> bool" where
  "carries_nonempty_href (Tag n a cs) =
     (n = ''a'' \<and> (case map_of a ''href'' of None \<Rightarrow> False | Some v \<Rightarrow> v \<noteq> []))"
| "carries_nonempty_href n = False"

section \<open>The loop body by the entry it records\<close>

text \<open>
  The three branches of the loop body differ only in the value they assign to
  \<^verbatim>\<open>analysis_results[link]\<close>. \<open>link_entry\<close> computes that value for a normalized link;
  lemma \<open>scan_link_entry\<close> below shows that \<open>scan_link\<close> is \<open>link_entry\<close> followed by
  the assignment.
\<close>

definition has_key2 :: "string \<Rightarrow> string \<Rightarrow> json \<Rightarrow> exn + bool" where
  "has_key2 k1 k2 v = py_and (py_in k1 v) (bind_exn (py_getitem v k1) (py_in k2))"

definition stats_entry :: "json \<Rightarrow> exn + json" where
  "stats_entry details_data =
     bind_exn (py_getitem details_data ''data'') (\<lambda>d.
     bind_exn (py_getitem d ''attributes'') (\<lambda>a.
     bind_exn (py_getitem a ''stats'') (\<lambda>stats.
     bind_exn (py_get stats ''malicious'' (JInt 0)) (\<lambda>malicious.
     bind_exn (py_get stats ''suspicious'' (JInt 0)) (\<lambda>suspicious.
     bind_exn (py_get stats ''undetected'' (JInt 0)) (\<lambda>undetected.
     Inr (JObj [(''malicious'', malicious), (''suspicious'', suspicious), (''undetected'', undetected)])))))))"

definition details_entry :: "json \<Rightarrow> exn + json" where
  "details_entry details_data =
     bind_exn (has_key2 ''data'' ''attributes'' details_data) (\<lambda>has_attributes.
       if has_attributes then stats_entry details_data
       else Inr (JObj [(''error'', JStr ''Details not found'')]))"

definition link_entry :: "services \<Rightarrow> string \<Rightarrow> json io" where
  "link_entry env link =
     bind_io (requests_call env (submission env link)) (\<lambda>response.
     bind_io (lift_io (response_json response)) (\<lambda>response_data.
     bind_io (lift_io (has_key2 ''data'' ''id'' response_data)) (\<lambda>has_id.
     if has_id then
       bind_io (lift_io (bind_exn (py_getitem response_data ''data'') (\<lambda>d. py_getitem d ''id''))) (\<lambda>analysis_id.
       bind_io (requests_call env (RequestsGetAnalysis analysis_id [(''x-apikey'', virustotal_api_key env)])) (\<lambda>details_response.
       bind_io (lift_io (response_json details_response)) (\<lambda>details_data.
       lift_io (details_entry details_data))))
     else return_io (JObj [(''error'', JStr ''Submission failed'')]))))"

section \<open>Test doubles\<close>

text \<open>
  Stubbed services for the worked examples: replies of the reputation service, a completion
  of the language model, and what the two libraries return on the strings the examples use.
\<close>

definition accepted :: response where
  "accepted = Response (Inr (JObj [(''data'', JObj [(''type'', JStr ''analysis''), (''id'', JStr ''u-1'')])]))"

definition rejected :: response where
  "rejected = Response (Inr (JObj [(''error'', JObj [(''code'', JStr ''QuotaExceededError'')])]))"

definition analysis :: "(string \<times> json) list \<Rightarrow> response" where
  "analysis attributes = Response (Inr (JObj [(''data'', JObj [(''attributes'', JObj attributes)])]))"

definition stats_5_2_10 :: json where
  "stats_5_2_10 = JObj [(''malicious'', JInt 5), (''suspicious'', JInt 2), (''undetected'', JInt 10)]"

fun reputation_ok :: "call list \<Rightarrow> call \<Rightarrow> exn + response" where
  "reputation_ok h (RequestsPost url hdrs form) = Inr accepted"
| "reputation_ok h c = Inr (analysis [(''stats'', stats_5_2_10)])"

fun reputation_first_rejected :: "call list \<Rightarrow> call \<Rightarrow> exn + response" where
  "reputation_first_rejected h (RequestsPost url hdrs form) = Inr (if h = [] then rejected else accepted)"
| "reputation_first_rejected h c = Inr (analysis [(''stats'', stats_5_2_10)])"

fun reputation_no_stats :: "call list \<Rightarrow> call \<Rightarrow> exn + response" where
  "reputation_no_stats h (RequestsPost url hdrs form) = Inr accepted"
| "reputation_no_stats h c = Inr (analysis [])"

definition reputation_not_json :: "call list \<Rightarrow> call \<Rightarrow> exn + response" where
  "reputation_not_json h c =
     Inr (Response (Inl (LibraryError ''JSONDecodeError'' ''Expecting value: line 1 column 1 (char 0)'')))"

definition reputation_unreachable :: "call list \<Rightarrow> call \<Rightarrow> exn + response" where
  "reputation_unreachable h c = Inl (LibraryError ''ConnectionError'' ''Connection refused'')"

definition completion :: "string \<Rightarrow> json" where
  "completion content =
     JObj [(''choices'', JArr [JObj [(''message'', JObj [(''role'', JStr ''assistant''), (''content'', JStr content)])]])]"

definition json_loads_on_examples :: "string \<Rightarrow> exn + json" where
  "json_loads_on_examples s =
     (if s = ''{\"phishingScore\": 87}'' then Inr (JObj [(''phishingScore'', JInt 87)])
      else if s = ''{\"phishingScore\": 95}'' then Inr (JObj [(''phishingScore'', JInt 95)])
      else if s = ''{\"phishingScore\": 150}'' then Inr (JObj [(''phishingScore'', JInt 150)])
      else if s = ''{}'' then Inr (JObj [])
      else Inl (LibraryError ''JSONDecodeError'' ''Expecting value: line 1 column 1 (char 0)''))"

definition phishing_markup :: string where
  "phishing_markup = ''Your account has been compromised <a href=\"http://phishing.com\">Reset</a>''"

definition phishing_soup :: "node list" where
  "phishing_soup =
     [NavigableString ''Your account has been compromised '',
      Tag ''a'' [(''href'', ''http://phishing.com'')] [NavigableString ''Reset'']]"

fun soup_on_examples :: "json \<Rightarrow> exn + node list" where
  "soup_on_examples (JStr s) =
     (if s = [] then Inr []
      else if s = phishing_markup then Inr phishing_soup
      else if s = ''<a href=\"\">x</a>'' then Inr [Tag ''a'' [(''href'', [])] [NavigableString ''x'']]
      else Inl (LibraryError ''NotAnExample'' s))"
| "soup_on_examples v = Inl (TypeError (''object of type '' @ quoted (type_name v) @ '' has no len()''))"

definition stub_services :: "(call list \<Rightarrow> call \<Rightarrow> exn + response) \<Rightarrow> exn + json \<Rightarrow> services" where
  "stub_services reputation reply =
     \<lparr>virustotal_api_key = Some ''test-key'',
      requests_reply = reputation,
      openai_reply = (\<lambda>h c. reply),
      json_loads = json_loads_on_examples,
      BeautifulSoup = soup_on_examples\<rparr>"

section \<open>Laws of the sequencing operators\<close>

lemma bind_io_assoc: "bind_io (bind_io m f) g = bind_io m (\<lambda>x. bind_io (f x) g)"
  by (rule ext) (simp add: bind_io_def split: prod.splits sum.splits)

lemma bind_io_if: "bind_io (if c then a else b) g = (if c then bind_io a g else bind_io b g)"
  by simp

lemma bind_io_return: "bind_io (return_io x) g = g x"
  by (rule ext) (simp add: bind_io_def return_io_def)

lemma bind_io_lift_bind:
  "bind_io (lift_io (bind_exn a f)) g = bind_io (lift_io a) (\<lambda>x. bind_io (lift_io (f x)) g)"
  by (rule ext) (simp add: bind_io_def lift_io_def bind_exn_def split: sum.splits)

lemma lift_io_bind_exn: "lift_io (bind_exn a f) = bind_io (lift_io a) (\<lambda>x. lift_io (f x))"
  by (rule ext) (simp add: bind_io_def lift_io_def bind_exn_def split: sum.splits)

lemma lift_io_if: "lift_io (if c then a else b) = (if c then lift_io a else lift_io b)"
  by simp

lemma lift_io_Inr: "lift_io (Inr x) = return_io x"
  by (rule ext) (simp add: lift_io_def return_io_def)

lemma bind_io_Inr:
  "bind_io m f h = (Inr y, h') \<longleftrightarrow> (\<exists>x h1. m h = (Inr x, h1) \<and> f x h1 = (Inr y, h'))"
  by (auto simp: bind_io_def split: prod.splits sum.splits)

lemma bind_io_raises: "m h = (Inl e, h') \<Longrightarrow> bind_io m f h = (Inl e, h')"
  by (simp add: bind_io_def)

lemma bind_io_returns: "m h = (Inr x, h1) \<Longrightarrow> bind_io m f h = f x h1"
  by (simp add: bind_io_def)

lemma bind_lift: "bind_io (lift_io x) f h = (case x of Inl e \<Rightarrow> (Inl e, h) | Inr v \<Rightarrow> f v h)"
  by (simp add: bind_io_def lift_io_def split: sum.splits)

lemma bind_requests:
  "bind_io (requests_call env c) f h =
     (case requests_reply env h c of Inl e \<Rightarrow> (Inl e, h @ [c]) | Inr r \<Rightarrow> f r (h @ [c]))"
  by (simp add: bind_io_def requests_call_def split: sum.splits)

section \<open>The scanner\<close>

lemma link_normalized:
  "(if \<not> startswith l ''http://'' \<and> \<not> startswith l ''https://'' then ''https://'' @ l else l) = normalized l"
  by (simp add: normalized_def)

lemma scan_link_entry:
  "scan_link env l res =
     bind_io (link_entry env (normalized l)) (\<lambda>entry. return_io (AList.update (normalized l) entry res))"
  unfolding scan_link_def Let_def link_normalized link_entry_def details_entry_def stats_entry_def
    has_key2_def[symmetric] submission_def[symmetric]
  by (simp add: bind_io_assoc bind_io_if bind_io_return bind_io_lift_bind lift_io_if lift_io_Inr
        lift_io_bind_exn cong: if_cong)

lemma submitted_submission: "submitted (submission env link) = [link]"
  by (simp add: submission_def)

lemma link_entry_history:
  assumes "link_entry env link h = (r, h')"
  shows "\<exists>calls. h' = h @ submission env link # calls \<and> concat (map submitted calls) = []"
  using assms unfolding link_entry_def
  by (auto simp: bind_lift bind_requests return_io_def lift_io_def split: sum.splits if_splits)

lemma scan_link_Inr:
  "scan_link env l res h = (Inr res', h') \<longleftrightarrow>
     (\<exists>entry. link_entry env (normalized l) h = (Inr entry, h') \<and> res' = AList.update (normalized l) entry res)"
  by (auto simp: scan_link_entry bind_io_Inr return_io_def)

lemma scan_link_Inl:
  "scan_link env l res h = (Inl e, h') \<longleftrightarrow> link_entry env (normalized l) h = (Inl e, h')"
  by (auto simp: scan_link_entry bind_io_def return_io_def split: prod.splits sum.splits)

lemma scan_link_history:
  assumes "scan_link env l res h = (r, h')"
  shows "\<exists>calls. h' = h @ submission env (normalized l) # calls \<and> concat (map submitted calls) = []"
proof (cases r)
  case (Inl e)
  with assms show ?thesis by (auto simp: scan_link_Inl dest: link_entry_history)
next
  case (Inr res')
  with assms show ?thesis by (auto simp: scan_link_Inr dest: link_entry_history)
qed

lemma scan_loop_append:
  "scan_loop env (xs @ ys) res = bind_io (scan_loop env xs res) (scan_loop env ys)"
proof (induction xs arbitrary: res)
  case Nil
  show ?case by (rule ext) (simp add: bind_io_def return_io_def)
next
  case (Cons x xs)
  have "scan_loop env (xs @ ys) = (\<lambda>r. bind_io (scan_loop env xs r) (scan_loop env ys))"
    by (rule ext) (rule Cons)
  then show ?case by (simp add: bind_io_assoc)
qed

lemma scan_loop_keys:
  "scan_loop env links res h = (Inr res', h') \<Longrightarrow>
     set (map fst res') = set (map fst res) \<union> set (map normalized links)
     \<and> (distinct (map fst res) \<longrightarrow> distinct (map fst res'))"
proof (induction links arbitrary: res h)
  case Nil
  then show ?case by (simp add: return_io_def)
next
  case (Cons l ls)
  from Cons.prems obtain res1 h1 where
    one: "scan_link env l res h = (Inr res1, h1)" and rest: "scan_loop env ls res1 h1 = (Inr res', h')"
    by (auto simp: bind_io_Inr)
  from one obtain entry where r1: "res1 = AList.update (normalized l) entry res"
    by (auto simp: scan_link_Inr)
  from Cons.IH[OF rest] r1 show ?case
    by (auto simp: dom_update distinct_update)
qed

lemma scan_loop_other_keys:
  "scan_loop env links res h = (Inr res', h') \<Longrightarrow> k \<notin> set (map normalized links) \<Longrightarrow>
     map_of res' k = map_of res k"
proof (induction links arbitrary: res h)
  case Nil
  then show ?case by (simp add: return_io_def)
next
  case (Cons l ls)
  from Cons.prems obtain res1 h1 where
    one: "scan_link env l res h = (Inr res1, h1)" and rest: "scan_loop env ls res1 h1 = (Inr res', h')"
    by (auto simp: bind_io_Inr)
  from one obtain entry where r1: "res1 = AList.update (normalized l) entry res"
    by (auto simp: scan_link_Inr)
  from Cons.IH[OF rest] Cons.prems(2) r1 show ?case
    by (simp add: update_conv')
qed

lemma scan_loop_history:
  "scan_loop env links res h = (r, h') \<Longrightarrow>
     \<exists>calls. h' = h @ calls \<and> prefix (concat (map submitted calls)) (map normalized links)
       \<and> (\<forall>res'. r = Inr res' \<longrightarrow> concat (map submitted calls) = map normalized links)"
proof (induction links arbitrary: res h)
  case Nil
  then show ?case by (simp add: return_io_def)
next
  case (Cons l ls)
  obtain r1 h1 where one: "scan_link env l res h = (r1, h1)" by (cases "scan_link env l res h")
  from scan_link_history[OF one] obtain calls1 where
    h1: "h1 = h @ submission env (normalized l) # calls1" and s1: "concat (map submitted calls1) = []" by blast
  show ?case
  proof (cases r1)
    case (Inl e)
    with Cons.prems one have r: "r = Inl e" "h' = h1" by (auto simp: bind_io_def)
    have "concat (map submitted (submission env (normalized l) # calls1)) = [normalized l]"
      using s1 by (simp add: submitted_submission)
    then have "prefix (concat (map submitted (submission env (normalized l) # calls1))) (map normalized (l # ls))"
      by simp
    with r h1 show ?thesis by blast
  next
    case (Inr res1)
    with Cons.prems one have rest: "scan_loop env ls res1 h1 = (r, h')" by (simp add: bind_io_def)
    from Cons.IH[OF rest] obtain calls where
      c: "h' = h1 @ calls" "prefix (concat (map submitted calls)) (map normalized ls)"
         "\<forall>res'. r = Inr res' \<longrightarrow> concat (map submitted calls) = map normalized ls" by blast
    have "h' = h @ (submission env (normalized l) # calls1 @ calls)" using c(1) h1 by simp
    moreover have "concat (map submitted (submission env (normalized l) # calls1 @ calls))
                     = normalized l # concat (map submitted calls)"
      using s1 by (simp add: submitted_submission)
    ultimately show ?thesis using c(2,3) by (metis Cons_prefix_Cons list.simps(9))
  qed
qed

lemma link_entry_submission_failed:
  assumes "requests_reply env h (submission env link) = Inr (Response (Inr response_data))"
      and "has_key2 ''data'' ''id'' response_data = Inr False"
  shows "link_entry env link h =
           (Inr (JObj [(''error'', JStr ''Submission failed'')]), h @ [submission env link])"
  using assms by (simp add: link_entry_def bind_requests bind_lift return_io_def)

text \<open>
  Bodies on which the test for an analysis identifier is false: an object without an
  identifier, and also a list or a string in which \<^verbatim>\<open>'data'\<close> does not occur, or a
  \<^verbatim>\<open>data\<close> member that is a list or a string in which \<^verbatim>\<open>'id'\<close> does not occur.
\<close>

lemma lacks_analysis_id_test:
  "lacks_analysis_id response_data \<Longrightarrow> has_key2 ''data'' ''id'' response_data = Inr False"
  by (cases response_data rule: lacks_analysis_id.cases)
     (auto simp: has_key2_def py_and_def bind_exn_def split: option.splits json.splits)

lemma test_false_on_other_shapes:
  "JStr ''data'' \<notin> set xs \<Longrightarrow> has_key2 ''data'' ''id'' (JArr xs) = Inr False"
  "\<not> str_contains s ''data'' \<Longrightarrow> has_key2 ''data'' ''id'' (JStr s) = Inr False"
  "map_of d ''data'' = Some (JArr ys) \<Longrightarrow> JStr ''id'' \<notin> set ys \<Longrightarrow>
     has_key2 ''data'' ''id'' (JObj d) = Inr False"
  "map_of d ''data'' = Some (JStr t) \<Longrightarrow> \<not> str_contains t ''id'' \<Longrightarrow>
     has_key2 ''data'' ''id'' (JObj d) = Inr False"
  by (simp_all add: has_key2_def py_and_def bind_exn_def)

text \<open>Evaluation of the stubbed runs.\<close>

lemmas io_eval =
  bind_io_def lift_io_def return_io_def try_except_def requests_call_def openai_call_def bind_exn_def
  py_and_def

lemmas stub_eval =
  stub_services_def accepted_def rejected_def analysis_def stats_5_2_10_def completion_def
  reputation_unreachable_def reputation_not_json_def json_loads_on_examples_def phishing_markup_def
  phishing_soup_def

lemmas scan_eval =
  scan_links_with_virustotal_def scan_link_def startswith_def vt_urls_def submission_def normalized_def
  quoted_def Let_def

section \<open>Claims about the Reputation Scanner\<close>

text \<open>
  C9. Every link is submitted in its normalized form, and that form is the key of its entry.
  Whatever a run of the scanner does (return or raise), the URLs it has submitted are, in
  order, the normalized forms of a prefix of the input links; when it returns, they are the
  normalized forms of all the links, and the keys of the result are exactly those forms.
  A link without \<^verbatim>\<open>http://\<close> or \<^verbatim>\<open>https://\<close> in front has \<^verbatim>\<open>https://\<close> prepended by
  \<open>normalized\<close>, any other link is unchanged.
\<close>

theorem scan_submits_normalized_links:
  assumes "scan_links_with_virustotal env links h = (r, h')"
  shows "(\<exists>calls. h' = h @ calls
           \<and> prefix (concat (map submitted calls)) (map normalized links)
           \<and> (\<forall>res. r = Inr res \<longrightarrow>
                  concat (map submitted calls) = map normalized links
                  \<and> set (map fst res) = set (map normalized links)))
       \<and> (\<forall>l. \<not> startswith l ''http://'' \<and> \<not> startswith l ''https://'' \<longrightarrow>
              normalized l = ''https://'' @ l)
       \<and> (\<forall>l. startswith l ''http://'' \<or> startswith l ''https://'' \<longrightarrow> normalized l = l)"
proof -
  from assms have run: "scan_loop env links [] h = (r, h')"
    by (simp add: scan_links_with_virustotal_def)
  from scan_loop_history[OF run] obtain calls where
    c: "h' = h @ calls" "prefix (concat (map submitted calls)) (map normalized links)"
       "\<forall>res'. r = Inr res' \<longrightarrow> concat (map submitted calls) = map normalized links"
    by blast
  have "set (map fst res) = set (map normalized links)" if "r = Inr res" for res
    using scan_loop_keys[of env links "[]" h res h'] run that by simp
  with c have "\<exists>calls. h' = h @ calls
           \<and> prefix (concat (map submitted calls)) (map normalized links)
           \<and> (\<forall>res. r = Inr res \<longrightarrow>
                  concat (map submitted calls) = map normalized links
                  \<and> set (map fst res) = set (map normalized links))"
    by blast
  then show ?thesis by (simp add: normalized_def)
qed

theorem scan_submits_normalized_links_witness:
  "scan_links_with_virustotal (stub_services reputation_ok (Inr JNull)) [''a.com'', ''http://b.org''] []
     = (Inr [(''https://a.com'', stats_5_2_10), (''http://b.org'', stats_5_2_10)],
        [submission (stub_services reputation_ok (Inr JNull)) ''https://a.com'',
         RequestsGetAnalysis (JStr ''u-1'') [(''x-apikey'', Some ''test-key'')],
         submission (stub_services reputation_ok (Inr JNull)) ''http://b.org'',
         RequestsGetAnalysis (JStr ''u-1'') [(''x-apikey'', Some ''test-key'')]])
   \<and> map normalized [''a.com'', ''http://b.org''] = [''https://a.com'', ''http://b.org'']
   \<and> (\<exists>calls.
         [submission (stub_services reputation_ok (Inr JNull)) ''https://a.com'',
          RequestsGetAnalysis (JStr ''u-1'') [(''x-apikey'', Some ''test-key'')],
          submission (stub_services reputation_ok (Inr JNull)) ''http://b.org'',
          RequestsGetAnalysis (JStr ''u-1'') [(''x-apikey'', Some ''test-key'')]] = [] @ calls
         \<and> concat (map submitted calls) = [''https://a.com'', ''http://b.org''])"
proof -
  let ?env = "stub_services reputation_ok (Inr JNull)"
  have run: "scan_links_with_virustotal ?env [''a.com'', ''http://b.org''] []
     = (Inr [(''https://a.com'', stats_5_2_10), (''http://b.org'', stats_5_2_10)],
        [submission ?env ''https://a.com'',
         RequestsGetAnalysis (JStr ''u-1'') [(''x-apikey'', Some ''test-key'')],
         submission ?env ''http://b.org'',
         RequestsGetAnalysis (JStr ''u-1'') [(''x-apikey'', Some ''test-key'')]])"
    by (simp add: io_eval stub_eval scan_eval)
  have norm: "map normalized [''a.com'', ''http://b.org''] = [''https://a.com'', ''http://b.org'']"
    by (simp add: normalized_def startswith_def)
  from scan_submits_normalized_links[OF run]
  have "\<exists>calls.
         [submission ?env ''https://a.com'',
          RequestsGetAnalysis (JStr ''u-1'') [(''x-apikey'', Some ''test-key'')],
          submission ?env ''http://b.org'',
          RequestsGetAnalysis (JStr ''u-1'') [(''x-apikey'', Some ''test-key'')]] = [] @ calls
         \<and> concat (map submitted calls) = map normalized [''a.com'', ''http://b.org'']"
    by blast
  with norm run show ?thesis by simp
qed

text \<open>
  C5, as the code has it. Whenever the scanner returns, its result has exactly one entry per
  distinct normalized link: the keys are pairwise distinct, they are the normalized forms of
  the input links, and every input link has exactly one value under its normalized form. The
  value under a key is the one the scan of the last link that normalizes to it produces: the
  entry that link records when it is scanned alone, on the empty dictionary, at that point of
  the run. The same entry is written whatever the dictionary held before, so the result of
  an earlier occurrence is overwritten.
\<close>

theorem scan_one_entry_per_normalized_link:
  assumes "scan_links_with_virustotal env links h = (Inr res, h')"
  shows "distinct (map fst res)
       \<and> set (map fst res) = set (map normalized links)
       \<and> (\<forall>l \<in> set links. \<exists>!v. (normalized l, v) \<in> set res)
       \<and> (\<forall>xs l ys. links = xs @ l # ys \<and> normalized l \<notin> set (map normalized ys) \<longrightarrow>
            (\<exists>res1 h1 entry h2.
                scan_links_with_virustotal env xs h = (Inr res1, h1)
              \<and> scan_link env l [] h1 = (Inr [(normalized l, entry)], h2)
              \<and> (\<forall>res0. scan_link env l res0 h1 = (Inr (AList.update (normalized l) entry res0), h2))
              \<and> map_of res (normalized l) = Some entry))"
proof -
  from assms have run: "scan_loop env links [] h = (Inr res, h')"
    by (simp add: scan_links_with_virustotal_def)
  from scan_loop_keys[OF run] have
    d: "distinct (map fst res)" and k: "set (map fst res) = set (map normalized links)"
    by simp_all
  have one: "\<exists>!v. (normalized l, v) \<in> set res" if "l \<in> set links" for l
  proof -
    from that k have "normalized l \<in> fst ` set res" by auto
    then obtain v where v: "(normalized l, v) \<in> set res" by auto
    moreover have "v' = v" if "(normalized l, v') \<in> set res" for v'
      using d v that by (meson eq_key_imp_eq_value)
    ultimately show ?thesis by blast
  qed
  have last: "\<exists>res1 h1 entry h2.
                scan_links_with_virustotal env xs h = (Inr res1, h1)
              \<and> scan_link env l [] h1 = (Inr [(normalized l, entry)], h2)
              \<and> (\<forall>res0. scan_link env l res0 h1 = (Inr (AList.update (normalized l) entry res0), h2))
              \<and> map_of res (normalized l) = Some entry"
    if split: "links = xs @ l # ys" and later: "normalized l \<notin> set (map normalized ys)" for xs l ys
  proof -
    from run split have "bind_io (scan_loop env xs []) (scan_loop env (l # ys)) h = (Inr res, h')"
      by (simp add: scan_loop_append)
    then obtain res1 h1 where
      first: "scan_loop env xs [] h = (Inr res1, h1)" and
      rest: "scan_loop env (l # ys) res1 h1 = (Inr res, h')"
      by (auto simp: bind_io_Inr)
    from rest obtain res2 h2 where
      this_one: "scan_link env l res1 h1 = (Inr res2, h2)" and
      after: "scan_loop env ys res2 h2 = (Inr res, h')"
      by (auto simp: bind_io_Inr)
    from this_one obtain entry where
      fresh: "link_entry env (normalized l) h1 = (Inr entry, h2)" and
      e: "res2 = AList.update (normalized l) entry res1"
      by (auto simp: scan_link_Inr)
    from fresh have any: "scan_link env l res0 h1 = (Inr (AList.update (normalized l) entry res0), h2)"
      for res0
      by (simp add: scan_link_Inr)
    from any[of "[]"] have alone: "scan_link env l [] h1 = (Inr [(normalized l, entry)], h2)"
      by simp
    from scan_loop_other_keys[OF after later] e
    have "map_of res (normalized l) = Some entry" by (simp add: update_conv')
    with first alone any show ?thesis
      by (auto simp: scan_links_with_virustotal_def)
  qed
  from d k one last show ?thesis by blast
qed

theorem scan_one_entry_per_normalized_link_witness:
  "scan_links_with_virustotal (stub_services reputation_first_rejected (Inr JNull)) [''a.com'', ''https://a.com''] []
     = (Inr [(''https://a.com'', stats_5_2_10)],
        [submission (stub_services reputation_first_rejected (Inr JNull)) ''https://a.com'',
         submission (stub_services reputation_first_rejected (Inr JNull)) ''https://a.com'',
         RequestsGetAnalysis (JStr ''u-1'') [(''x-apikey'', Some ''test-key'')]])
   \<and> scan_links_with_virustotal (stub_services reputation_first_rejected (Inr JNull)) [''a.com''] []
     = (Inr [(''https://a.com'', JObj [(''error'', JStr ''Submission failed'')])],
        [submission (stub_services reputation_first_rejected (Inr JNull)) ''https://a.com''])
   \<and> distinct (map fst [(''https://a.com'', stats_5_2_10)])
   \<and> (\<exists>!v. (normalized ''a.com'', v) \<in> set [(''https://a.com'', stats_5_2_10)])
   \<and> (\<exists>h2.
         scan_link (stub_services reputation_first_rejected (Inr JNull)) ''https://a.com'' []
           [submission (stub_services reputation_first_rejected (Inr JNull)) ''https://a.com'']
         = (Inr [(''https://a.com'', stats_5_2_10)], h2)
       \<and> scan_link (stub_services reputation_first_rejected (Inr JNull)) ''https://a.com''
           [(''https://a.com'', JObj [(''error'', JStr ''Submission failed'')])]
           [submission (stub_services reputation_first_rejected (Inr JNull)) ''https://a.com'']
         = (Inr [(''https://a.com'', stats_5_2_10)], h2))
   \<and> map_of [(''https://a.com'', stats_5_2_10)] ''https://a.com'' = Some stats_5_2_10"
proof -
  let ?env = "stub_services reputation_first_rejected (Inr JNull)"
  have run: "scan_links_with_virustotal ?env [''a.com'', ''https://a.com''] []
     = (Inr [(''https://a.com'', stats_5_2_10)],
        [submission ?env ''https://a.com'', submission ?env ''https://a.com'',
         RequestsGetAnalysis (JStr ''u-1'') [(''x-apikey'', Some ''test-key'')]])"
    by (simp add: io_eval stub_eval scan_eval)
  have first: "scan_links_with_virustotal ?env [''a.com''] []
     = (Inr [(''https://a.com'', JObj [(''error'', JStr ''Submission failed'')])],
        [submission ?env ''https://a.com''])"
    by (simp add: io_eval stub_eval scan_eval)
  have later: "normalized ''https://a.com'' \<notin> set (map normalized [])" by simp
  have split: "[''a.com'', ''https://a.com''] = [''a.com''] @ ''https://a.com'' # []" by simp
  note main = scan_one_entry_per_normalized_link[OF run]
  from main have d: "distinct (map fst [(''https://a.com'', stats_5_2_10)])" by blast
  from main have u: "\<exists>!v. (normalized ''a.com'', v) \<in> set [(''https://a.com'', stats_5_2_10)]"
    by simp
  have norm: "normalized ''https://a.com'' = ''https://a.com''"
    by (simp add: normalized_def startswith_def)
  from main split later obtain res1 h1 entry h2 where
    f: "scan_links_with_virustotal ?env [''a.com''] [] = (Inr res1, h1)" and
    a: "scan_link ?env ''https://a.com'' [] h1 = (Inr [(normalized ''https://a.com'', entry)], h2)" and
    o: "\<forall>res0. scan_link ?env ''https://a.com'' res0 h1
            = (Inr (AList.update (normalized ''https://a.com'') entry res0), h2)" and
    m: "map_of [(''https://a.com'', stats_5_2_10)] (normalized ''https://a.com'') = Some entry"
    by blast
  from f first have r: "res1 = [(''https://a.com'', JObj [(''error'', JStr ''Submission failed'')])]"
    and h: "h1 = [submission ?env ''https://a.com'']"
    by simp_all
  from m norm have entry: "entry = stats_5_2_10" by simp
  from o have "scan_link ?env ''https://a.com''
        [(''https://a.com'', JObj [(''error'', JStr ''Submission failed'')])] h1
      = (Inr (AList.update (normalized ''https://a.com'') entry
                [(''https://a.com'', JObj [(''error'', JStr ''Submission failed'')])]), h2)"
    by blast
  with norm entry h have over: "scan_link ?env ''https://a.com''
        [(''https://a.com'', JObj [(''error'', JStr ''Submission failed'')])]
        [submission ?env ''https://a.com'']
      = (Inr [(''https://a.com'', stats_5_2_10)], h2)"
    by simp
  from a norm entry h have alone: "scan_link ?env ''https://a.com'' [] [submission ?env ''https://a.com'']
      = (Inr [(''https://a.com'', stats_5_2_10)], h2)"
    by simp
  have look: "map_of [(''https://a.com'', stats_5_2_10)] ''https://a.com'' = Some stats_5_2_10" by simp
  from alone over have l: "\<exists>h2.
         scan_link ?env ''https://a.com'' [] [submission ?env ''https://a.com'']
         = (Inr [(''https://a.com'', stats_5_2_10)], h2)
       \<and> scan_link ?env ''https://a.com''
           [(''https://a.com'', JObj [(''error'', JStr ''Submission failed'')])]
           [submission ?env ''https://a.com'']
         = (Inr [(''https://a.com'', stats_5_2_10)], h2)"
    by blast
  from run first d u l look show ?thesis by blast
qed

text \<open>
  C5, as the claim states it, fails: the scanner does not return a mapping for every list of
  links. When the body of the submission response is not JSON, \<^verbatim>\<open>response.json()\<close> raises,
  the scanner raises with it, and the link has no entry.
\<close>

theorem scan_raises_on_undecodable_response:
  "scan_links_with_virustotal (stub_services reputation_not_json (Inr JNull)) [''a.com''] []
     = (Inl (LibraryError ''JSONDecodeError'' ''Expecting value: line 1 column 1 (char 0)''),
        [submission (stub_services reputation_not_json (Inr JNull)) ''https://a.com''])"
  by (simp add: io_eval stub_eval scan_eval)

text \<open>
  C6, as the code has it. When the submission of a link returns a response whose body decodes
  and lacks an analysis identifier, that is, whenever the test
  \<^verbatim>\<open>'data' in response_data and 'id' in response_data['data']\<close> of the source evaluates to
  false, the entry \<^verbatim>\<open>{"error": "Submission failed"}\<close> is recorded under the normalized link
  after that one call, and the scan goes on with the remaining links exactly as the loop runs
  them from there. The body need not be an object: a list or a string without an identifier
  is treated the same way.
\<close>

theorem submission_failed_recorded_scan_continues:
  assumes "scan_links_with_virustotal env xs h = (Inr res1, h1)"
      and "requests_reply env h1 (submission env (normalized l)) = Inr (Response (Inr response_data))"
      and "py_and (py_in ''data'' response_data)
             (bind_exn (py_getitem response_data ''data'') (py_in ''id'')) = Inr False"
  shows "scan_links_with_virustotal env (xs @ l # ys) h =
           scan_loop env ys
             (AList.update (normalized l) (JObj [(''error'', JStr ''Submission failed'')]) res1)
             (h1 @ [submission env (normalized l)])"
proof -
  from assms(1) have first: "scan_loop env xs [] h = (Inr res1, h1)"
    by (simp add: scan_links_with_virustotal_def)
  from assms(3) have test: "has_key2 ''data'' ''id'' response_data = Inr False"
    by (simp add: has_key2_def)
  have "scan_links_with_virustotal env (xs @ l # ys) h = scan_loop env (l # ys) res1 h1"
    by (simp add: scan_links_with_virustotal_def scan_loop_append
          bind_io_returns[where m = "scan_loop env xs []", OF first])
  also have "\<dots> = bind_io (scan_link env l res1) (scan_loop env ys) h1" by simp
  also have "scan_link env l res1 h1 =
      (Inr (AList.update (normalized l) (JObj [(''error'', JStr ''Submission failed'')]) res1),
       h1 @ [submission env (normalized l)])"
    by (simp add: scan_link_entry return_io_def
          bind_io_returns[where m = "link_entry env (normalized l)",
            OF link_entry_submission_failed[OF assms(2) test]])
  then have "bind_io (scan_link env l res1) (scan_loop env ys) h1 =
      scan_loop env ys
        (AList.update (normalized l) (JObj [(''error'', JStr ''Submission failed'')]) res1)
        (h1 @ [submission env (normalized l)])"
    by (rule bind_io_returns[where m = "scan_link env l res1"])
  finally show ?thesis .
qed

theorem submission_failed_recorded_scan_continues_witness:
  "scan_links_with_virustotal (stub_services reputation_first_rejected (Inr JNull)) [] [] = (Inr [], [])
   \<and> requests_reply (stub_services reputation_first_rejected (Inr JNull)) []
        (submission (stub_services reputation_first_rejected (Inr JNull)) (normalized ''a.com''))
      = Inr (Response (Inr (JObj [(''error'', JObj [(''code'', JStr ''QuotaExceededError'')])])))
   \<and> py_and (py_in ''data'' (JObj [(''error'', JObj [(''code'', JStr ''QuotaExceededError'')])]))
         (bind_exn (py_getitem (JObj [(''error'', JObj [(''code'', JStr ''QuotaExceededError'')])]) ''data'')
            (py_in ''id'')) = Inr False
   \<and> scan_links_with_virustotal (stub_services reputation_first_rejected (Inr JNull)) [''a.com'', ''b.org''] []
      = (Inr [(''https://a.com'', JObj [(''error'', JStr ''Submission failed'')]),
              (''https://b.org'', stats_5_2_10)],
         [submission (stub_services reputation_first_rejected (Inr JNull)) ''https://a.com'',
          submission (stub_services reputation_first_rejected (Inr JNull)) ''https://b.org'',
          RequestsGetAnalysis (JStr ''u-1'') [(''x-apikey'', Some ''test-key'')]])"
proof -
  let ?env = "stub_services reputation_first_rejected (Inr JNull)"
  let ?rd = "JObj [(''error'', JObj [(''code'', JStr ''QuotaExceededError'')])]"
  have first: "scan_links_with_virustotal ?env [] [] = (Inr [], [])"
    by (simp add: scan_links_with_virustotal_def return_io_def)
  have reply: "requests_reply ?env [] (submission ?env (normalized ''a.com'')) = Inr (Response (Inr ?rd))"
    by (simp add: stub_eval submission_def)
  have lacks: "py_and (py_in ''data'' ?rd) (bind_exn (py_getitem ?rd ''data'') (py_in ''id'')) = Inr False"
    by (simp add: py_and_def)
  have rest: "scan_loop ?env [''b.org'']
                (AList.update (normalized ''a.com'') (JObj [(''error'', JStr ''Submission failed'')]) [])
                ([] @ [submission ?env (normalized ''a.com'')])
      = (Inr [(''https://a.com'', JObj [(''error'', JStr ''Submission failed'')]),
              (''https://b.org'', stats_5_2_10)],
         [submission ?env ''https://a.com'', submission ?env ''https://b.org'',
          RequestsGetAnalysis (JStr ''u-1'') [(''x-apikey'', Some ''test-key'')]])"
    by (simp add: io_eval stub_eval scan_eval)
  from submission_failed_recorded_scan_continues[OF first reply lacks, of "[''b.org'']"] rest
  have "scan_links_with_virustotal ?env [''a.com'', ''b.org''] []
      = (Inr [(''https://a.com'', JObj [(''error'', JStr ''Submission failed'')]),
              (''https://b.org'', stats_5_2_10)],
         [submission ?env ''https://a.com'', submission ?env ''https://b.org'',
          RequestsGetAnalysis (JStr ''u-1'') [(''x-apikey'', Some ''test-key'')]])"
    by simp
  with first reply lacks show ?thesis by blast
qed

text \<open>
  C6, as the claim states it, fails: a submission that fails by raising (here the service
  cannot be reached) records nothing and aborts the scan. The exception leaves the scanner
  after the first call; the second link is never submitted.
\<close>

theorem submission_exception_aborts_scan:
  "scan_links_with_virustotal (stub_services reputation_unreachable (Inr JNull)) [''a.com'', ''b.org''] []
     = (Inl (LibraryError ''ConnectionError'' ''Connection refused''),
        [submission (stub_services reputation_unreachable (Inr JNull)) ''https://a.com''])"
  by (simp add: io_eval stub_eval scan_eval)

text \<open>
  C2 at the failing input. The submission returns an analysis identifier and the details
  response is \<^verbatim>\<open>{"data": {"attributes": {}}}\<close>: the statistics are missing. The scanner does
  not record \<^verbatim>\<open>{"error": "Details not found"}\<close>; it raises \<^verbatim>\<open>KeyError('stats')\<close>.
\<close>

theorem details_without_stats_raises:
  "scan_links_with_virustotal (stub_services reputation_no_stats (Inr JNull)) [''http://phishing.com''] []
     = (Inl (KeyError (quoted ''stats'')),
        [submission (stub_services reputation_no_stats (Inr JNull)) ''http://phishing.com'',
         RequestsGetAnalysis (JStr ''u-1'') [(''x-apikey'', Some ''test-key'')]])"
  by (simp add: io_eval stub_eval scan_eval)

section \<open>Claims about the Markup Extractor\<close>

lemma comprehension_hrefs:
  "comprehension (\<lambda>a. tag_getitem a ''href'') (filter (matches_href ''a'') ns)
     = Inr (concat (map own_href ns))"
proof (induction ns)
  case Nil
  show ?case by simp
next
  case (Cons n ns)
  then show ?case by (cases n) (auto split: option.splits)
qed

lemma concat_map_concat:
  "(\<And>c. c \<in> set cs \<Longrightarrow> concat (map f (g c)) = k c) \<Longrightarrow>
     concat (map f (concat (map g cs))) = concat (map k cs)"
  by (induction cs) simp_all

lemma subtree_hrefs: "concat (map own_href (subtree n)) = anchor_hrefs n"
proof (induction n rule: anchor_hrefs.induct)
  case (1 n a cs)
  have "concat (map own_href (concat (map subtree cs))) = concat (map anchor_hrefs cs)"
    by (rule concat_map_concat) (rule 1)
  then show ?case by simp
qed simp_all

lemma descendants_hrefs: "concat (map own_href (descendants soup)) = concat (map anchor_hrefs soup)"
  unfolding descendants_def by (rule concat_map_concat) (rule subtree_hrefs)

lemma length_own_hrefs: "length (concat (map own_href ns)) = length (filter carries_href ns)"
proof (induction ns)
  case Nil
  show ?case by simp
next
  case (Cons n ns)
  then show ?case
    by (cases n) (auto split: option.splits simp: map_of_eq_None_iff image_iff)
qed

lemma no_anchor_no_href: "\<forall>n \<in> set ns. \<not> is_anchor n \<Longrightarrow> filter (matches_href ''a'') ns = []"
proof (induction ns)
  case Nil
  show ?case by simp
next
  case (Cons n ns)
  then show ?case by (cases n) auto
qed

text \<open>
  C4, as the code has it. For every markup the parser accepts, \<^verbatim>\<open>extract_email_data\<close> returns
  as links the \<^verbatim>\<open>href\<close> values of the anchor elements that carry an \<^verbatim>\<open>href\<close> attribute, in
  document order with duplicates kept, and the number of links is the number of anchor
  elements that carry the attribute, whatever its value.
\<close>

theorem extract_links_are_anchor_hrefs:
  assumes "BeautifulSoup env raw = Inr soup"
  shows "extract_email_data env raw = Inr (get_text soup, concat (map anchor_hrefs soup))
       \<and> length (concat (map anchor_hrefs soup)) = length (filter carries_href (descendants soup))"
proof -
  have "comprehension (\<lambda>a. tag_getitem a ''href'') (find_all_href soup ''a'')
          = Inr (concat (map anchor_hrefs soup))"
    by (simp add: find_all_href_def comprehension_hrefs descendants_hrefs)
  with assms have "extract_email_data env raw = Inr (get_text soup, concat (map anchor_hrefs soup))"
    by (simp add: extract_email_data_def bind_exn_def)
  moreover have "length (concat (map anchor_hrefs soup)) = length (filter carries_href (descendants soup))"
    using length_own_hrefs[of "descendants soup"] by (simp add: descendants_hrefs)
  ultimately show ?thesis by blast
qed

theorem extract_links_are_anchor_hrefs_witness:
  "BeautifulSoup (stub_services reputation_ok (Inr JNull)) (JStr phishing_markup) = Inr phishing_soup
   \<and> extract_email_data (stub_services reputation_ok (Inr JNull)) (JStr phishing_markup)
       = Inr (''Your account has been compromisedReset'', [''http://phishing.com''])
   \<and> length [''http://phishing.com''] = length (filter carries_href (descendants phishing_soup))"
proof -
  let ?env = "stub_services reputation_ok (Inr JNull)"
  have parse: "BeautifulSoup ?env (JStr phishing_markup) = Inr phishing_soup"
    by (simp add: stub_services_def phishing_markup_def)
  have body: "get_text phishing_soup = ''Your account has been compromisedReset''"
    by (simp add: get_text_def descendants_def phishing_soup_def strip_def py_isspace_def)
  have links: "concat (map anchor_hrefs phishing_soup) = [''http://phishing.com'']"
    by (simp add: phishing_soup_def)
  from extract_links_are_anchor_hrefs[OF parse] parse body links show ?thesis
    by simp
qed

text \<open>
  C4, as the claim states it, fails on an anchor with an empty \<^verbatim>\<open>href\<close>: the markup
  \<^verbatim>\<open><a href="">x</a>\<close> yields one link, the empty string, although no anchor element has a
  non-empty \<^verbatim>\<open>href\<close>.
\<close>

theorem extract_counts_empty_href:
  "BeautifulSoup (stub_services reputation_ok (Inr JNull)) (JStr ''<a href=\"\">x</a>'')
     = Inr [Tag ''a'' [(''href'', [])] [NavigableString ''x'']]
   \<and> extract_email_data (stub_services reputation_ok (Inr JNull)) (JStr ''<a href=\"\">x</a>'')
     = Inr (''x'', [[]])
   \<and> length [[] :: string] = 1
   \<and> length (filter carries_nonempty_href
        (descendants [Tag ''a'' [(''href'', [])] [NavigableString ''x'']])) = 0"
  by (simp add: stub_services_def phishing_markup_def extract_email_data_def bind_exn_def
        get_text_def descendants_def find_all_href_def strip_def py_isspace_def)

section \<open>Claims about the Risk Assessor\<close>

lemma chatgpt_try_eval:
  "chatgpt_try env text vt h =
     (bind_exn (openai_reply env h (ChatCompletionCreate text vt)) (chatgpt_reply_score env),
      h @ [ChatCompletionCreate text vt])"
  by (simp add: chatgpt_try_def bind_io_def openai_call_def lift_io_def bind_exn_def split: sum.splits)

lemma analyze_with_chatgpt_eval:
  "analyze_with_chatgpt env text vt h =
     (Inr (case bind_exn (openai_reply env h (ChatCompletionCreate text vt)) (chatgpt_reply_score env) of
             Inl e \<Rightarrow> JObj [(''error'', JStr (''OpenAI API error: '' @ str_exn e))]
           | Inr v \<Rightarrow> v),
      h @ [ChatCompletionCreate text vt])"
  by (simp add: analyze_with_chatgpt_def try_except_def chatgpt_try_eval return_io_def split: sum.splits)

lemma reply_score_field:
  assumes "message_content response = Inr (JStr content)"
      and "json_loads env (strip content) = Inr (JObj reply)"
  shows "chatgpt_reply_score env response = py_getitem (JObj reply) ''phishingScore''"
  using assms by (simp add: chatgpt_reply_score_def bind_exn_def)

text \<open>
  C7. \<^verbatim>\<open>analyze_with_chatgpt\<close> never raises: every run returns a value, after the one call to
  the model. Whenever the body of its \<^verbatim>\<open>try\<close> block raises an exception \<open>e\<close>, the value is
  \<^verbatim>\<open>{"error": "OpenAI API error: <str(e)>"}\<close>; in particular when the call itself fails, when
  the reply is not JSON, and when the decoded reply has no \<^verbatim>\<open>phishingScore\<close>. On a reply
  whose content decodes to \<^verbatim>\<open>{"phishingScore": 87}\<close> the value is 87.
\<close>

theorem assess_never_raises:
  "(\<exists>v. analyze_with_chatgpt env text vt h = (Inr v, h @ [ChatCompletionCreate text vt]))
   \<and> (\<forall>e h'. chatgpt_try env text vt h = (Inl e, h') \<longrightarrow>
         analyze_with_chatgpt env text vt h
           = (Inr (JObj [(''error'', JStr (''OpenAI API error: '' @ str_exn e))]), h'))
   \<and> (\<forall>e. openai_reply env h (ChatCompletionCreate text vt) = Inl e \<longrightarrow>
         fst (analyze_with_chatgpt env text vt h)
           = Inr (JObj [(''error'', JStr (''OpenAI API error: '' @ str_exn e))]))
   \<and> (\<forall>response content e.
         openai_reply env h (ChatCompletionCreate text vt) = Inr response
         \<and> message_content response = Inr (JStr content)
         \<and> json_loads env (strip content) = Inl e \<longrightarrow>
         fst (analyze_with_chatgpt env text vt h)
           = Inr (JObj [(''error'', JStr (''OpenAI API error: '' @ str_exn e))]))
   \<and> (\<forall>response content reply.
         openai_reply env h (ChatCompletionCreate text vt) = Inr response
         \<and> message_content response = Inr (JStr content)
         \<and> json_loads env (strip content) = Inr (JObj reply)
         \<and> map_of reply ''phishingScore'' = None \<longrightarrow>
         fst (analyze_with_chatgpt env text vt h)
           = Inr (JObj [(''error'', JStr (''OpenAI API error: '' @ quoted ''phishingScore''))]))
   \<and> (\<forall>response content.
         openai_reply env h (ChatCompletionCreate text vt) = Inr response
         \<and> message_content response = Inr (JStr content)
         \<and> json_loads env (strip content) = Inr (JObj [(''phishingScore'', JInt 87)]) \<longrightarrow>
         fst (analyze_with_chatgpt env text vt h) = Inr (JInt 87))"
proof (intro conjI allI impI)
  show "\<exists>v. analyze_with_chatgpt env text vt h = (Inr v, h @ [ChatCompletionCreate text vt])"
    by (simp add: analyze_with_chatgpt_eval)
next
  fix e h' assume "chatgpt_try env text vt h = (Inl e, h')"
  then show "analyze_with_chatgpt env text vt h
           = (Inr (JObj [(''error'', JStr (''OpenAI API error: '' @ str_exn e))]), h')"
    by (simp add: analyze_with_chatgpt_def try_except_def return_io_def)
next
  fix e assume "openai_reply env h (ChatCompletionCreate text vt) = Inl e"
  then show "fst (analyze_with_chatgpt env text vt h)
           = Inr (JObj [(''error'', JStr (''OpenAI API error: '' @ str_exn e))])"
    by (simp add: analyze_with_chatgpt_eval bind_exn_def)
next
  fix response content e
  assume "openai_reply env h (ChatCompletionCreate text vt) = Inr response
         \<and> message_content response = Inr (JStr content)
         \<and> json_loads env (strip content) = Inl e"
  then show "fst (analyze_with_chatgpt env text vt h)
           = Inr (JObj [(''error'', JStr (''OpenAI API error: '' @ str_exn e))])"
    by (simp add: analyze_with_chatgpt_eval chatgpt_reply_score_def bind_exn_def)
next
  fix response content reply
  assume "openai_reply env h (ChatCompletionCreate text vt) = Inr response
         \<and> message_content response = Inr (JStr content)
         \<and> json_loads env (strip content) = Inr (JObj reply)
         \<and> map_of reply ''phishingScore'' = None"
  then show "fst (analyze_with_chatgpt env text vt h)
           = Inr (JObj [(''error'', JStr (''OpenAI API error: '' @ quoted ''phishingScore''))])"
    by (simp add: analyze_with_chatgpt_eval reply_score_field bind_exn_def)
next
  fix response content
  assume "openai_reply env h (ChatCompletionCreate text vt) = Inr response
         \<and> message_content response = Inr (JStr content)
         \<and> json_loads env (strip content) = Inr (JObj [(''phishingScore'', JInt 87)])"
  then show "fst (analyze_with_chatgpt env text vt h) = Inr (JInt 87)"
    by (simp add: analyze_with_chatgpt_eval reply_score_field bind_exn_def)
qed

lemmas assess_eval =
  message_content_def chatgpt_reply_score_def chatgpt_try_def analyze_with_chatgpt_def strip_def
  py_isspace_def quoted_def

theorem assess_never_raises_witness:
  "fst (analyze_with_chatgpt (stub_services reputation_ok (Inr (completion ''{\"phishingScore\": 87}''))) ''Hello'' [] [])
     = Inr (JInt 87)
   \<and> fst (analyze_with_chatgpt
        (stub_services reputation_ok (Inl (LibraryError ''APIConnectionError'' ''Error communicating with OpenAI'')))
        ''Hello'' [] [])
     = Inr (JObj [(''error'', JStr ''OpenAI API error: Error communicating with OpenAI'')])
   \<and> fst (analyze_with_chatgpt (stub_services reputation_ok (Inr (completion ''Sorry, I cannot help.''))) ''Hello'' [] [])
     = Inr (JObj [(''error'', JStr ''OpenAI API error: Expecting value: line 1 column 1 (char 0)'')])
   \<and> fst (analyze_with_chatgpt (stub_services reputation_ok (Inr (completion ''{}''))) ''Hello'' [] [])
     = Inr (JObj [(''error'', JStr (''OpenAI API error: '' @ quoted ''phishingScore''))])"
proof -
  let ?ok = "stub_services reputation_ok (Inr (completion ''{\"phishingScore\": 87}''))"
  let ?down = "stub_services reputation_ok
                 (Inl (LibraryError ''APIConnectionError'' ''Error communicating with OpenAI''))"
  let ?prose = "stub_services reputation_ok (Inr (completion ''Sorry, I cannot help.''))"
  let ?empty = "stub_services reputation_ok (Inr (completion ''{}''))"
  have ok: "openai_reply ?ok [] (ChatCompletionCreate ''Hello'' []) = Inr (completion ''{\"phishingScore\": 87}'')
      \<and> message_content (completion ''{\"phishingScore\": 87}'') = Inr (JStr ''{\"phishingScore\": 87}'')
      \<and> json_loads ?ok (strip ''{\"phishingScore\": 87}'') = Inr (JObj [(''phishingScore'', JInt 87)])"
    by (simp add: stub_eval assess_eval bind_exn_def)
  have down: "openai_reply ?down [] (ChatCompletionCreate ''Hello'' [])
      = Inl (LibraryError ''APIConnectionError'' ''Error communicating with OpenAI'')"
    by (simp add: stub_eval)
  have prose: "openai_reply ?prose [] (ChatCompletionCreate ''Hello'' []) = Inr (completion ''Sorry, I cannot help.'')
      \<and> message_content (completion ''Sorry, I cannot help.'') = Inr (JStr ''Sorry, I cannot help.'')
      \<and> json_loads ?prose (strip ''Sorry, I cannot help.'')
          = Inl (LibraryError ''JSONDecodeError'' ''Expecting value: line 1 column 1 (char 0)'')"
    by (simp add: stub_eval assess_eval bind_exn_def)
  have empty: "openai_reply ?empty [] (ChatCompletionCreate ''Hello'' []) = Inr (completion ''{}'')
      \<and> message_content (completion ''{}'') = Inr (JStr ''{}'')
      \<and> json_loads ?empty (strip ''{}'') = Inr (JObj [])
      \<and> map_of ([] :: (string \<times> json) list) ''phishingScore'' = None"
    by (simp add: stub_eval assess_eval bind_exn_def)
  from assess_never_raises[of ?ok "''Hello''" "[]" "[]"] ok
  have 1: "fst (analyze_with_chatgpt ?ok ''Hello'' [] []) = Inr (JInt 87)" by blast
  from assess_never_raises[of ?down "''Hello''" "[]" "[]"] down
  have 2: "fst (analyze_with_chatgpt ?down ''Hello'' [] [])
      = Inr (JObj [(''error'', JStr ''OpenAI API error: Error communicating with OpenAI'')])"
    by simp
  from assess_never_raises[of ?prose "''Hello''" "[]" "[]"] prose
  have "fst (analyze_with_chatgpt ?prose ''Hello'' [] [])
      = Inr (JObj [(''error'', JStr (''OpenAI API error: '' @
               str_exn (LibraryError ''JSONDecodeError'' ''Expecting value: line 1 column 1 (char 0)'')))])"
    by blast
  then have 3: "fst (analyze_with_chatgpt ?prose ''Hello'' [] [])
      = Inr (JObj [(''error'', JStr ''OpenAI API error: Expecting value: line 1 column 1 (char 0)'')])"
    by simp
  from assess_never_raises[of ?empty "''Hello''" "[]" "[]"] empty
  have 4: "fst (analyze_with_chatgpt ?empty ''Hello'' [] [])
      = Inr (JObj [(''error'', JStr (''OpenAI API error: '' @ quoted ''phishingScore''))])"
    by blast
  from 1 2 3 4 show ?thesis by blast
qed

text \<open>
  C3, as the code has it. When the call succeeds, the content of the reply decodes to a JSON
  object and the object has the field \<^verbatim>\<open>phishingScore\<close>, \<^verbatim>\<open>analyze_with_chatgpt\<close> returns
  the value of that field as it is: no check of its range or of its type is applied.
\<close>

theorem assess_returns_reply_field:
  assumes "openai_reply env h (ChatCompletionCreate text vt) = Inr response"
      and "message_content response = Inr (JStr content)"
      and "json_loads env (strip content) = Inr (JObj reply)"
      and "map_of reply ''phishingScore'' = Some v"
  shows "analyze_with_chatgpt env text vt h = (Inr v, h @ [ChatCompletionCreate text vt])"
  using assms by (simp add: analyze_with_chatgpt_eval reply_score_field bind_exn_def)

theorem assess_returns_reply_field_witness:
  "openai_reply (stub_services reputation_ok (Inr (completion ''{\"phishingScore\": 95}''))) []
       (ChatCompletionCreate ''Hello'' []) = Inr (completion ''{\"phishingScore\": 95}'')
   \<and> message_content (completion ''{\"phishingScore\": 95}'') = Inr (JStr ''{\"phishingScore\": 95}'')
   \<and> json_loads (stub_services reputation_ok (Inr (completion ''{\"phishingScore\": 95}'')))
        (strip ''{\"phishingScore\": 95}'') = Inr (JObj [(''phishingScore'', JInt 95)])
   \<and> map_of [(''phishingScore'', JInt 95)] ''phishingScore'' = Some (JInt 95)
   \<and> analyze_with_chatgpt (stub_services reputation_ok (Inr (completion ''{\"phishingScore\": 95}''))) ''Hello'' [] []
       = (Inr (JInt 95), [ChatCompletionCreate ''Hello'' []])"
proof -
  let ?env = "stub_services reputation_ok (Inr (completion ''{\"phishingScore\": 95}''))"
  have reply: "openai_reply ?env [] (ChatCompletionCreate ''Hello'' []) = Inr (completion ''{\"phishingScore\": 95}'')"
    by (simp add: stub_eval)
  have content: "message_content (completion ''{\"phishingScore\": 95}'') = Inr (JStr ''{\"phishingScore\": 95}'')"
    by (simp add: stub_eval assess_eval bind_exn_def)
  have parse: "json_loads ?env (strip ''{\"phishingScore\": 95}'') = Inr (JObj [(''phishingScore'', JInt 95)])"
    by (simp add: stub_eval assess_eval)
  have field: "map_of [(''phishingScore'', JInt 95)] ''phishingScore'' = Some (JInt 95)" by simp
  from assess_returns_reply_field[OF reply content parse field] reply content parse field
  show ?thesis by simp
qed

text \<open>
  C3, as the claim states it, fails: on the reply \<^verbatim>\<open>{"phishingScore": 150}\<close> the assessment
  succeeds and returns 150, which is not a score between 0 and 100.
\<close>

theorem assess_returns_out_of_range_score:
  "analyze_with_chatgpt (stub_services reputation_ok (Inr (completion ''{\"phishingScore\": 150}''))) ''Hello'' [] []
     = (Inr (JInt 150), [ChatCompletionCreate ''Hello'' []])
   \<and> \<not> valid_score (JInt 150)"
  by (simp add: stub_eval assess_eval io_eval)

section \<open>Claims about the Request Handler\<close>

lemma analyze_email_after_extraction:
  assumes "py_get data ''emailContent'' (JStr []) = Inr raw"
      and "extract_email_data env raw = Inr (body, links)"
  shows "analyze_email env data h =
           try_except (analyze_email_try env body links)
             (\<lambda>e. return_io (500, JObj [(''error'', JStr (str_exn e))])) h"
  using assms by (simp add: analyze_email_def bind_lift)

lemma analyze_email_try_scan_raises:
  assumes "scan_links_with_virustotal env links h = (Inl e, h1)"
  shows "analyze_email_try env body links h = (Inl e, h1)"
  using assms by (simp add: analyze_email_try_def bind_io_def)

lemma analyze_email_try_scan_returns:
  assumes "scan_links_with_virustotal env links h = (Inr vt, h1)"
      and "analyze_with_chatgpt env body vt h1 = (Inr ps, h2)"
  shows "analyze_email_try env body links h =
           (Inr (200, JObj [(''phishingScore'', ps), (''virusTotalResults'', JObj vt)]), h2)"
  using assms by (simp add: analyze_email_try_def bind_io_def return_io_def)

lemmas handler_eval =
  analyze_email_def analyze_email_try_def extract_email_data_def get_text_def descendants_def
  find_all_href_def

text \<open>
  C1, as the code has it. The \<^verbatim>\<open>try\<close> block of the handler starts after the extraction.
  For a request whose \<^verbatim>\<open>emailContent\<close> has been read and extracted, an exception \<open>e\<close> raised
  inside the block, and so any exception raised by the scanning step, is caught: the handler
  answers with status 500 and the body \<^verbatim>\<open>{"error": str(e)}\<close>, and in every case it returns a
  response instead of raising.
\<close>

theorem handler_catches_scan_and_assess_exceptions:
  assumes "py_get data ''emailContent'' (JStr []) = Inr raw"
      and "extract_email_data env raw = Inr (body, links)"
  shows "(\<forall>e h1. analyze_email_try env body links h = (Inl e, h1) \<longrightarrow>
            analyze_email env data h = (Inr (500, JObj [(''error'', JStr (str_exn e))]), h1))
       \<and> (\<forall>e h1. scan_links_with_virustotal env links h = (Inl e, h1) \<longrightarrow>
            analyze_email env data h = (Inr (500, JObj [(''error'', JStr (str_exn e))]), h1))
       \<and> (\<exists>status response_body h'. analyze_email env data h = (Inr (status, response_body), h'))"
proof -
  note unfold = analyze_email_after_extraction[OF assms]
  have caught: "analyze_email env data h = (Inr (500, JObj [(''error'', JStr (str_exn e))]), h1)"
    if "analyze_email_try env body links h = (Inl e, h1)" for e h1
    using that by (simp add: unfold try_except_def return_io_def)
  have scan: "analyze_email env data h = (Inr (500, JObj [(''error'', JStr (str_exn e))]), h1)"
    if "scan_links_with_virustotal env links h = (Inl e, h1)" for e h1
    using caught[OF analyze_email_try_scan_raises[OF that]] .
  have "\<exists>status response_body h'. analyze_email env data h = (Inr (status, response_body), h')"
  proof (cases "analyze_email_try env body links h")
    case (Pair r h1)
    then show ?thesis
      by (cases r) (auto simp: unfold try_except_def return_io_def)
  qed
  with caught scan show ?thesis by blast
qed

theorem handler_catches_scan_and_assess_exceptions_witness:
  "py_get (JObj [(''emailContent'', JStr phishing_markup)]) ''emailContent'' (JStr []) = Inr (JStr phishing_markup)
   \<and> extract_email_data (stub_services reputation_no_stats (Inr JNull)) (JStr phishing_markup)
       = Inr (''Your account has been compromisedReset'', [''http://phishing.com''])
   \<and> scan_links_with_virustotal (stub_services reputation_no_stats (Inr JNull)) [''http://phishing.com''] []
       = (Inl (KeyError (quoted ''stats'')),
          [submission (stub_services reputation_no_stats (Inr JNull)) ''http://phishing.com'',
           RequestsGetAnalysis (JStr ''u-1'') [(''x-apikey'', Some ''test-key'')]])
   \<and> analyze_email (stub_services reputation_no_stats (Inr JNull))
        (JObj [(''emailContent'', JStr phishing_markup)]) []
       = (Inr (500, JObj [(''error'', JStr (quoted ''stats''))]),
          [submission (stub_services reputation_no_stats (Inr JNull)) ''http://phishing.com'',
           RequestsGetAnalysis (JStr ''u-1'') [(''x-apikey'', Some ''test-key'')]])"
proof -
  let ?env = "stub_services reputation_no_stats (Inr JNull)"
  have read: "py_get (JObj [(''emailContent'', JStr phishing_markup)]) ''emailContent'' (JStr [])
      = Inr (JStr phishing_markup)"
    by simp
  have extr: "extract_email_data ?env (JStr phishing_markup)
      = Inr (''Your account has been compromisedReset'', [''http://phishing.com''])"
    by (simp add: stub_eval handler_eval bind_exn_def strip_def py_isspace_def)
  have scan: "scan_links_with_virustotal ?env [''http://phishing.com''] []
      = (Inl (KeyError (quoted ''stats'')),
         [submission ?env ''http://phishing.com'',
          RequestsGetAnalysis (JStr ''u-1'') [(''x-apikey'', Some ''test-key'')]])"
    by (simp add: io_eval stub_eval scan_eval)
  from handler_catches_scan_and_assess_exceptions[OF read extr, of "[]"] scan
  have "analyze_email ?env (JObj [(''emailContent'', JStr phishing_markup)]) []
      = (Inr (500, JObj [(''error'', JStr (str_exn (KeyError (quoted ''stats''))))]),
         [submission ?env ''http://phishing.com'',
          RequestsGetAnalysis (JStr ''u-1'') [(''x-apikey'', Some ''test-key'')]])"
    by blast
  with read extr scan show ?thesis by simp
qed

text \<open>
  C1, as the claim states it, fails for the extraction step, which runs before the \<^verbatim>\<open>try\<close>
  block. On the request \<^verbatim>\<open>{"emailContent": 5}\<close> the parser raises a \<^verbatim>\<open>TypeError\<close>; the handler
  does not answer 500 with an error body, the exception leaves it.
\<close>

theorem extraction_exception_leaves_handler:
  "extract_email_data (stub_services reputation_ok (Inr JNull)) (JInt 5)
     = Inl (TypeError (''object of type '' @ quoted ''int'' @ '' has no len()''))
   \<and> analyze_email (stub_services reputation_ok (Inr JNull)) (JObj [(''emailContent'', JInt 5)]) []
     = (Inl (TypeError (''object of type '' @ quoted ''int'' @ '' has no len()'')), [])"
  by (simp add: stub_services_def handler_eval bind_exn_def bind_io_def lift_io_def)

text \<open>
  C8. For a request that has been read and extracted and whose scan returns without an
  exception, the assessment returns a value \<open>ps\<close> and the handler answers with status 200 and
  the body \<^verbatim>\<open>{"phishingScore": ps, "virusTotalResults": <scan result>}\<close>. When the body of
  the assessor's \<^verbatim>\<open>try\<close> block raised \<open>e\<close>, \<open>ps\<close> is the error object
  \<^verbatim>\<open>{"error": "OpenAI API error: <str(e)>"}\<close>, unchanged, and the status is still 200.
\<close>

theorem handler_success_returns_200:
  assumes "py_get data ''emailContent'' (JStr []) = Inr raw"
      and "extract_email_data env raw = Inr (body, links)"
      and "scan_links_with_virustotal env links h = (Inr vt, h1)"
  shows "\<exists>ps h2. analyze_with_chatgpt env body vt h1 = (Inr ps, h2)
           \<and> analyze_email env data h
               = (Inr (200, JObj [(''phishingScore'', ps), (''virusTotalResults'', JObj vt)]), h2)
           \<and> (\<forall>e h'. chatgpt_try env body vt h1 = (Inl e, h') \<longrightarrow>
                 ps = JObj [(''error'', JStr (''OpenAI API error: '' @ str_exn e))])"
proof -
  obtain ps where ps: "analyze_with_chatgpt env body vt h1 = (Inr ps, h1 @ [ChatCompletionCreate body vt])"
    by (auto simp: analyze_with_chatgpt_eval)
  from analyze_email_try_scan_returns[OF assms(3) ps]
  have "analyze_email env data h
      = (Inr (200, JObj [(''phishingScore'', ps), (''virusTotalResults'', JObj vt)]),
         h1 @ [ChatCompletionCreate body vt])"
    by (simp add: analyze_email_after_extraction[OF assms(1,2)] try_except_def)
  moreover have "ps = JObj [(''error'', JStr (''OpenAI API error: '' @ str_exn e))]"
    if "chatgpt_try env body vt h1 = (Inl e, h')" for e h'
    using that ps by (simp add: analyze_with_chatgpt_def try_except_def return_io_def)
  ultimately show ?thesis using ps by blast
qed

theorem handler_success_returns_200_witness:
  "py_get (JObj [(''emailContent'', JStr phishing_markup)]) ''emailContent'' (JStr []) = Inr (JStr phishing_markup)
   \<and> extract_email_data (stub_services reputation_ok (Inr (completion ''{\"phishingScore\": 95}''))) (JStr phishing_markup)
       = Inr (''Your account has been compromisedReset'', [''http://phishing.com''])
   \<and> fst (scan_links_with_virustotal (stub_services reputation_ok (Inr (completion ''{\"phishingScore\": 95}'')))
        [''http://phishing.com''] [])
       = Inr [(''http://phishing.com'', stats_5_2_10)]
   \<and> fst (analyze_email (stub_services reputation_ok (Inr (completion ''{\"phishingScore\": 95}'')))
        (JObj [(''emailContent'', JStr phishing_markup)]) [])
       = Inr (200, JObj [(''phishingScore'', JInt 95),
                         (''virusTotalResults'', JObj [(''http://phishing.com'', stats_5_2_10)])])
   \<and> fst (analyze_email (stub_services reputation_ok (Inl (LibraryError ''RateLimitError'' ''Rate limit reached'')))
        (JObj [(''emailContent'', JStr phishing_markup)]) [])
       = Inr (200, JObj [(''phishingScore'', JObj [(''error'', JStr ''OpenAI API error: Rate limit reached'')]),
                         (''virusTotalResults'', JObj [(''http://phishing.com'', stats_5_2_10)])])"
proof -
  let ?ok = "stub_services reputation_ok (Inr (completion ''{\"phishingScore\": 95}''))"
  let ?limited = "stub_services reputation_ok (Inl (LibraryError ''RateLimitError'' ''Rate limit reached''))"
  let ?h1 = "[submission ?ok ''http://phishing.com'',
              RequestsGetAnalysis (JStr ''u-1'') [(''x-apikey'', Some ''test-key'')]]"
  let ?vt = "[(''http://phishing.com'', stats_5_2_10)]"
  let ?body = "''Your account has been compromisedReset''"
  have read: "py_get (JObj [(''emailContent'', JStr phishing_markup)]) ''emailContent'' (JStr [])
      = Inr (JStr phishing_markup)"
    by simp
  have extr: "extract_email_data ?ok (JStr phishing_markup) = Inr (?body, [''http://phishing.com''])"
    by (simp add: stub_eval handler_eval bind_exn_def strip_def py_isspace_def)
  have extr': "extract_email_data ?limited (JStr phishing_markup) = Inr (?body, [''http://phishing.com''])"
    by (simp add: stub_eval handler_eval bind_exn_def strip_def py_isspace_def)
  have scan: "scan_links_with_virustotal ?ok [''http://phishing.com''] [] = (Inr ?vt, ?h1)"
    by (simp add: io_eval stub_eval scan_eval)
  have scan': "scan_links_with_virustotal ?limited [''http://phishing.com''] [] = (Inr ?vt, ?h1)"
    by (simp add: io_eval stub_eval scan_eval)
  have assess: "analyze_with_chatgpt ?ok ?body ?vt ?h1 = (Inr (JInt 95), ?h1 @ [ChatCompletionCreate ?body ?vt])"
    by (simp add: stub_eval assess_eval io_eval)
  have assess': "chatgpt_try ?limited ?body ?vt ?h1
      = (Inl (LibraryError ''RateLimitError'' ''Rate limit reached''), ?h1 @ [ChatCompletionCreate ?body ?vt])"
    by (simp add: stub_eval assess_eval io_eval)
  from handler_success_returns_200[OF read extr scan] assess
  have ok: "fst (analyze_email ?ok (JObj [(''emailContent'', JStr phishing_markup)]) [])
      = Inr (200, JObj [(''phishingScore'', JInt 95), (''virusTotalResults'', JObj ?vt)])"
    by auto
  from handler_success_returns_200[OF read extr' scan'] assess'
  have limited: "fst (analyze_email ?limited (JObj [(''emailContent'', JStr phishing_markup)]) [])
      = Inr (200, JObj [(''phishingScore'', JObj [(''error'', JStr ''OpenAI API error: Rate limit reached'')]),
                        (''virusTotalResults'', JObj ?vt)])"
    by auto
  from read extr scan ok limited show ?thesis by simp
qed

text \<open>
  C10. The scanner applied to the empty list returns the empty mapping, without a call.
  So a request whose markup parses to a document with no anchor element takes the success
  path: status 200 with \<^verbatim>\<open>virusTotalResults\<close> empty. A request object without
  \<^verbatim>\<open>emailContent\<close> is read as the empty string.
\<close>

theorem no_links_empty_results:
  "scan_links_with_virustotal env [] h = (Inr [], h)
   \<and> (py_get data ''emailContent'' (JStr []) = Inr raw
        \<and> BeautifulSoup env raw = Inr soup
        \<and> (\<forall>n \<in> set (descendants soup). \<not> is_anchor n) \<longrightarrow>
        (\<exists>ps h'. analyze_email env data h
                   = (Inr (200, JObj [(''phishingScore'', ps), (''virusTotalResults'', JObj [])]), h')))
   \<and> (map_of d ''emailContent'' = None \<longrightarrow>
        py_get (JObj d) ''emailContent'' (JStr []) = Inr (JStr []))"
proof (intro conjI impI)
  show empty: "scan_links_with_virustotal env [] h = (Inr [], h)"
    by (simp add: scan_links_with_virustotal_def return_io_def)
  show "py_get (JObj d) ''emailContent'' (JStr []) = Inr (JStr [])"
    if "map_of d ''emailContent'' = None"
    using that by simp
  show "\<exists>ps h'. analyze_email env data h
           = (Inr (200, JObj [(''phishingScore'', ps), (''virusTotalResults'', JObj [])]), h')"
    if a: "py_get data ''emailContent'' (JStr []) = Inr raw
        \<and> BeautifulSoup env raw = Inr soup
        \<and> (\<forall>n \<in> set (descendants soup). \<not> is_anchor n)"
  proof -
    from a have "find_all_href soup ''a'' = []"
      by (simp add: find_all_href_def no_anchor_no_href)
    with a have extr: "extract_email_data env raw = Inr (get_text soup, [])"
      by (simp add: extract_email_data_def bind_exn_def)
    obtain ps where ps: "analyze_with_chatgpt env (get_text soup) [] h
        = (Inr ps, h @ [ChatCompletionCreate (get_text soup) []])"
      by (auto simp: analyze_with_chatgpt_eval)
    from a have read: "py_get data ''emailContent'' (JStr []) = Inr raw" by simp
    from analyze_email_try_scan_returns[OF empty ps]
    have "analyze_email env data h
        = (Inr (200, JObj [(''phishingScore'', ps), (''virusTotalResults'', JObj [])]),
           h @ [ChatCompletionCreate (get_text soup) []])"
      by (simp add: analyze_email_after_extraction[OF read extr] try_except_def)
    then show ?thesis by blast
  qed
qed

theorem no_links_empty_results_witness:
  "map_of ([] :: (string \<times> json) list) ''emailContent'' = None
   \<and> py_get (JObj []) ''emailContent'' (JStr []) = Inr (JStr [])
   \<and> BeautifulSoup (stub_services reputation_ok (Inr (completion ''{\"phishingScore\": 95}''))) (JStr []) = Inr []
   \<and> descendants [] = []
   \<and> scan_links_with_virustotal (stub_services reputation_ok (Inr (completion ''{\"phishingScore\": 95}''))) [] []
       = (Inr [], [])
   \<and> (\<exists>ps h'. analyze_email (stub_services reputation_ok (Inr (completion ''{\"phishingScore\": 95}''))) (JObj []) []
                = (Inr (200, JObj [(''phishingScore'', ps), (''virusTotalResults'', JObj [])]), h'))"
proof -
  let ?env = "stub_services reputation_ok (Inr (completion ''{\"phishingScore\": 95}''))"
  have missing: "map_of ([] :: (string \<times> json) list) ''emailContent'' = None" by simp
  have parse: "BeautifulSoup ?env (JStr []) = Inr []" by (simp add: stub_services_def)
  have nodes: "descendants [] = []" by (simp add: descendants_def)
  then have none: "\<forall>n \<in> set (descendants []). \<not> is_anchor n" by simp
  note main = no_links_empty_results[of ?env "[]" "JObj []" "JStr []" "[]" "[]"]
  from main missing have read: "py_get (JObj []) ''emailContent'' (JStr []) = Inr (JStr [])" by blast
  from main have empty: "scan_links_with_virustotal ?env [] [] = (Inr [], [])" by blast
  from main read parse none
  have "\<exists>ps h'. analyze_email ?env (JObj []) []
           = (Inr (200, JObj [(''phishingScore'', ps), (''virusTotalResults'', JObj [])]), h')"
    by blast
  with missing read parse nodes empty show ?thesis by blast
qed

end
